theory Spec2Isabelle
  imports Main "HOL-Library.Char_ord" "HOL-Library.List_Lexorder"
begin

section \<open>Values, tables and arrays\<close>

text \<open>
  The module \<^verbatim>\<open>tobler/harmonize.py\<close> holds one function, \<^verbatim>\<open>harmonize\<close>, which
  drives pandas and geopandas tables and three interpolation primitives of
  \<^verbatim>\<open>tobler.area_weighted\<close>. The function does no arithmetic of its own: it compares
  period values for equality, moves columns around and calls the primitives. A cell of a
  table is therefore a string, a number (kept as an integer payload), a geometry (named by
  a number) or the missing value.
\<close>

datatype cell = Str string | Num int | Geom nat | NaN

text \<open>Python's \<^verbatim>\<open>==\<close> on scalars: the missing value equals nothing, itself included.\<close>

definition cell_eq :: "cell \<Rightarrow> cell \<Rightarrow> bool" where
  "cell_eq a b = (if a = NaN then False else a = b)"

text \<open>
  A \<^verbatim>\<open>DataFrame\<close>: the row index (its name and its labels) and the columns in order, each
  a label with its values. Column labels may repeat, as they may in pandas.
\<close>

record frame =
  idx_name :: "string option"
  idx :: "cell list"
  cols :: "(string \<times> cell list) list"

text \<open>A \<^verbatim>\<open>GeoDataFrame\<close>: a table with the \<^verbatim>\<open>crs\<close> attribute (\<open>None\<close> when unset).\<close>

record geoframe =
  crs :: "string option"
  data :: frame

text \<open>A two-dimensional numpy array, column by column, with its number of rows.\<close>

record ndarray =
  arr_nrows :: nat
  arr_cols :: "cell list list"

text \<open>
  Every exception the function can raise is a value. The names are the Python classes,
  with the place of the raise where one class is raised at several places.
\<close>

datatype error =
    TypeError_len_NoneType
  | TypeError_raise_str string
  | CRSError_missing
  | ValueError_crs_mismatch
  | IndexError_list_index
  | KeyError string
  | KeyError_label cell
  | NotASeries string
  | ValueError_shape
  | ValueError_cannot_insert string
  | ValueError_no_objects
  | ValueError_duplicate_labels
  | InvalidIndexError
  | UnboundLocalError string
  | PrimitiveError string

definition is_TypeError :: "error \<Rightarrow> bool" where
  "is_TypeError e = (case e of TypeError_len_NoneType \<Rightarrow> True | TypeError_raise_str m \<Rightarrow> True
                       | _ \<Rightarrow> False)"

section \<open>The pandas operations the function uses\<close>

definition nrows :: "frame \<Rightarrow> nat" where
  "nrows f = length (idx f)"

definition col_names :: "frame \<Rightarrow> string list" where
  "col_names f = map fst (cols f)"

text \<open>The labels of a \<^verbatim>\<open>RangeIndex\<close> of length \<open>n\<close>.\<close>

definition range_index :: "nat \<Rightarrow> cell list" where
  "range_index n = map (\<lambda>k. Num (int k)) [0..<n]"

text \<open>
  \<^verbatim>\<open>df[name]\<close>: the column as a Series. A missing label raises KeyError. A repeated label
  gives a table and not a Series, and what the function does next with it (\<^verbatim>\<open>.unique()\<close>,
  a column assignment) raises.
\<close>

definition get_series :: "frame \<Rightarrow> string \<Rightarrow> error + cell list" where
  "get_series f name =
     (case filter (\<lambda>c. fst c = name) (cols f) of
        [] \<Rightarrow> Inl (KeyError name)
      | [c] \<Rightarrow> Inr (snd c)
      | _ \<Rightarrow> Inl (NotASeries name))"

text \<open>\<^verbatim>\<open>Series.unique()\<close>: the distinct values in order of first appearance.\<close>

primrec unique :: "'a list \<Rightarrow> 'a list" where
  "unique [] = []"
| "unique (x # xs) = x # filter (\<lambda>y. y \<noteq> x) (unique xs)"

text \<open>\<^verbatim>\<open>df[mask]\<close> with a boolean mask: the rows where the mask holds, labels kept.\<close>

definition select :: "bool list \<Rightarrow> 'a list \<Rightarrow> 'a list" where
  "select keep xs = map snd (filter fst (zip keep xs))"

definition filter_rows :: "frame \<Rightarrow> bool list \<Rightarrow> frame" where
  "filter_rows f keep =
     f\<lparr>idx := select keep (idx f),
       cols := map (\<lambda>c. (fst c, select keep (snd c))) (cols f)\<rparr>"

text \<open>
  \<^verbatim>\<open>df.reset_index()\<close> with its default \<^verbatim>\<open>drop=False\<close>: the old index becomes the first
  column, under the index's name, or \<^verbatim>\<open>index\<close> for an unnamed index (\<^verbatim>\<open>level_0\<close> when
  \<^verbatim>\<open>index\<close> is taken); the new index is a RangeIndex. A taken name raises ValueError.
\<close>

definition reset_index :: "frame \<Rightarrow> error + frame" where
  "reset_index f =
     (let name = (case idx_name f of
                    Some n \<Rightarrow> n
                  | None \<Rightarrow> if ''index'' \<in> set (col_names f) then ''level_0'' else ''index'')
      in if name \<in> set (col_names f) then Inl (ValueError_cannot_insert name)
         else Inr \<lparr>idx_name = None, idx = range_index (nrows f),
                   cols = (name, idx f) # cols f\<rparr>)"

text \<open>The first error of a list of results, or all the values.\<close>

primrec sequence :: "(error + 'a) list \<Rightarrow> error + 'a list" where
  "sequence [] = Inr []"
| "sequence (r # rs) =
     (case r of
        Inl e \<Rightarrow> Inl e
      | Inr x \<Rightarrow> (case sequence rs of Inl e \<Rightarrow> Inl e | Inr xs \<Rightarrow> Inr (x # xs)))"

text \<open>
  \<^verbatim>\<open>pd.concat(frames, sort=srt)\<close> along the rows, with the default outer join. The column
  labels of the result are those of the frames when they all agree, and otherwise the
  distinct labels in order of first appearance; \<^verbatim>\<open>sort=True\<close> sorts them. A frame whose
  labels are not the result's is reindexed: a column it lacks is filled with the missing
  value, and a frame with a repeated label cannot be reindexed (InvalidIndexError). The
  row labels are kept as they are. An empty list raises ValueError.
\<close>

definition concat_names :: "bool \<Rightarrow> frame list \<Rightarrow> string list" where
  "concat_names srt fs =
     (let u = (if list_all (\<lambda>f. col_names f = col_names (hd fs)) fs then col_names (hd fs)
               else unique (concat (map col_names fs)))
      in if srt then sort u else u)"

definition reindex_cols :: "string list \<Rightarrow> frame \<Rightarrow> error + cell list list" where
  "reindex_cols names f =
     (if col_names f = names then Inr (map snd (cols f))
      else if distinct (col_names f)
      then Inr (map (\<lambda>n. case map_of (cols f) n of
                           Some c \<Rightarrow> c
                         | None \<Rightarrow> replicate (nrows f) NaN) names)
      else Inl InvalidIndexError)"

definition concat_idx_name :: "frame list \<Rightarrow> string option" where
  "concat_idx_name fs =
     (if list_all (\<lambda>f. idx_name f = idx_name (hd fs)) fs then idx_name (hd fs) else None)"

definition pd_concat :: "bool \<Rightarrow> frame list \<Rightarrow> error + frame" where
  "pd_concat srt fs =
     (if fs = [] then Inl ValueError_no_objects
      else let names = concat_names srt fs
           in case sequence (map (reindex_cols names) fs) of
                Inl e \<Rightarrow> Inl e
              | Inr blocks \<Rightarrow>
                  Inr \<lparr>idx_name = concat_idx_name fs,
                       idx = concat (map idx fs),
                       cols = map (\<lambda>j. (names ! j, concat (map (\<lambda>b. b ! j) blocks)))
                                  [0..<length names]\<rparr>)"

text \<open>
  \<^verbatim>\<open>pd.DataFrame(array, columns=names)\<close>: one column per name over a fresh RangeIndex;
  a number of names that is not the array's number of columns raises ValueError.
\<close>

definition DataFrame :: "ndarray \<Rightarrow> string list \<Rightarrow> error + frame" where
  "DataFrame a columns =
     (if length (arr_cols a) = length columns
      then Inr \<lparr>idx_name = None, idx = range_index (arr_nrows a),
                cols = zip columns (arr_cols a)\<rparr>
      else Inl ValueError_shape)"

text \<open>
  \<^verbatim>\<open>pd.concat(frames, axis=1)\<close> for frames that each carry a RangeIndex, as the frames
  built by \<^verbatim>\<open>pd.DataFrame\<close> do: the columns side by side over the longest index, the
  shorter columns filled with the missing value.
\<close>

definition pad :: "nat \<Rightarrow> cell list \<Rightarrow> cell list" where
  "pad m c = c @ replicate (m - length c) NaN"

definition concat_axis1 :: "frame list \<Rightarrow> error + frame" where
  "concat_axis1 fs =
     (if fs = [] then Inl ValueError_no_objects
      else let m = foldr (\<lambda>f. max (nrows f)) fs 0
           in Inr \<lparr>idx_name = None, idx = range_index m,
                    cols = concat (map (\<lambda>f. map (\<lambda>c. (fst c, pad m (snd c))) (cols f)) fs)\<rparr>)"

text \<open>
  \<^verbatim>\<open>df[name] = values\<close> with values for the rows of the table: a label the table has
  keeps its place (every column of that label is set), a new label is appended.
\<close>

definition set_col :: "frame \<Rightarrow> string \<Rightarrow> cell list \<Rightarrow> frame" where
  "set_col f name vals =
     (if name \<in> set (col_names f)
      then f\<lparr>cols := map (\<lambda>c. if fst c = name then (name, vals) else c) (cols f)\<rparr>
      else f\<lparr>cols := cols f @ [(name, vals)]\<rparr>)"

text \<open>
  Assigning a Series aligns it on the row labels of the table: equal indexes are taken
  position by position; otherwise each row takes the value at its label, or the missing
  value; a Series with repeated labels cannot be aligned (ValueError).
\<close>

definition align :: "cell list \<Rightarrow> cell list \<Rightarrow> cell list \<Rightarrow> error + cell list" where
  "align labels sidx vals =
     (if sidx = labels then Inr vals
      else if distinct sidx
      then Inr (map (\<lambda>l. case map_of (zip sidx vals) l of Some v \<Rightarrow> v | None \<Rightarrow> NaN) labels)
      else Inl ValueError_duplicate_labels)"

text \<open>
  \<^verbatim>\<open>df[name] = series\<close>. When the label heads more than one column and the Series
  has as many entries as there are such columns, pandas sets these columns one by one,
  the \<open>j\<close>-th of them with \<^verbatim>\<open>series[j]\<close>: the entry labelled \<open>j\<close> when the Series
  has integer labels (a missing label raises KeyError; several entries so labelled are a
  Series again, which is aligned), the entry at position \<open>j\<close> otherwise; a single entry
  goes into every row. In every other case the Series is aligned and set as a whole.
\<close>

definition count_label :: "frame \<Rightarrow> string \<Rightarrow> nat" where
  "count_label f name = length (filter (\<lambda>c. fst c = name) (cols f))"

definition is_int_label :: "cell \<Rightarrow> bool" where
  "is_int_label l = (case l of Num n \<Rightarrow> True | _ \<Rightarrow> False)"

definition series_item :: "frame \<Rightarrow> cell list \<Rightarrow> cell list \<Rightarrow> nat \<Rightarrow> error + cell list" where
  "series_item f sidx vals j =
     (if list_ex is_int_label sidx
      then (case filter (\<lambda>p. fst p = Num (int j)) (zip sidx vals) of
              [] \<Rightarrow> Inl (KeyError_label (Num (int j)))
            | [p] \<Rightarrow> Inr (replicate (nrows f) (snd p))
            | p # q # ps \<Rightarrow> align (idx f) (map fst (p # q # ps)) (map snd (p # q # ps)))
      else if j < length vals then Inr (replicate (nrows f) (vals ! j))
      else Inl IndexError_list_index)"

fun spread_cols ::
  "string \<Rightarrow> cell list list \<Rightarrow> (string \<times> cell list) list \<Rightarrow> (string \<times> cell list) list" where
  "spread_cols name items [] = []"
| "spread_cols name [] (c # cs) = c # cs"
| "spread_cols name (v # vs) (c # cs) =
     (if fst c = name then (name, v) # spread_cols name vs cs
      else c # spread_cols name (v # vs) cs)"

definition set_series :: "frame \<Rightarrow> string \<Rightarrow> cell list \<Rightarrow> cell list \<Rightarrow> error + frame" where
  "set_series f name sidx vals =
     (if 1 < count_label f name \<and> count_label f name = length vals
      then (case sequence (map (series_item f sidx vals) [0..<count_label f name]) of
              Inl e \<Rightarrow> Inl e
            | Inr items \<Rightarrow> Inr (f\<lparr>cols := spread_cols name items (cols f)\<rparr>))
      else (case align (idx f) sidx vals of
              Inl e \<Rightarrow> Inl e
            | Inr v \<Rightarrow> Inr (set_col f name v)))"

text \<open>\<^verbatim>\<open>df[name] = scalar\<close>: the scalar in every row.\<close>

definition set_scalar :: "frame \<Rightarrow> string \<Rightarrow> cell \<Rightarrow> frame" where
  "set_scalar f name v = set_col f name (replicate (nrows f) v)"

text \<open>
  \<^verbatim>\<open>d[k] = v\<close> on a dict, which keeps insertion order: a key the dict has keeps its
  place and takes the new value, a new key goes last.
\<close>

fun dict_set :: "(cell \<times> 'v) list \<Rightarrow> cell \<Rightarrow> 'v \<Rightarrow> (cell \<times> 'v) list" where
  "dict_set [] k v = [(k, v)]"
| "dict_set (e # d) k v = (if cell_eq (fst e) k then (fst e, v) # d else e # dict_set d k v)"

text \<open>
  \<^verbatim>\<open>gpd.GeoDataFrame(df, crs=c)\<close>; the keyword defaults to \<open>None\<close>. The reference
  system is an attribute of the table, which is where lines 121 and 128 read it; a
  geometry cell carries none.
\<close>

definition GeoDataFrame :: "frame \<Rightarrow> string option \<Rightarrow> geoframe" where
  "GeoDataFrame df c = \<lparr>crs = c, data = df\<rparr>"

section \<open>The interpolation primitives\<close>

text \<open>
  \<^verbatim>\<open>area_interpolate_binning\<close>, \<^verbatim>\<open>area_tables_raster\<close> and \<^verbatim>\<open>area_interpolate\<close> are
  imported from \<^verbatim>\<open>tobler.area_weighted\<close> and are parameters here. Their arguments are in
  the order of the calls in \<^verbatim>\<open>harmonize\<close>. Python passes a table by reference, so a
  primitive may change the table it is given as target: besides its value (two arrays, or
  the weight tables, of an opaque type) each primitive returns the state in which it
  leaves that table. A primitive may also raise.
\<close>

record 't primitives =
  area_interpolate_binning ::
    "frame \<Rightarrow> frame \<Rightarrow> string list option \<Rightarrow> string list option \<Rightarrow> bool
       \<Rightarrow> error + frame \<times> ndarray \<times> ndarray"
  area_tables_raster ::
    "frame \<Rightarrow> frame \<Rightarrow> string option \<Rightarrow> int list \<Rightarrow> bool \<Rightarrow> error + frame \<times> 't"
  area_interpolate ::
    "frame \<Rightarrow> frame \<Rightarrow> string list option \<Rightarrow> string list option \<Rightarrow> bool \<Rightarrow> 't
       \<Rightarrow> error + frame \<times> ndarray \<times> ndarray"

text \<open>The calls made to the primitives, each with the period of its loop iteration.\<close>

datatype call =
    Call_area_interpolate_binning cell
  | Call_area_tables_raster cell
  | Call_area_interpolate cell

section \<open>harmonize\<close>

text \<open>The arguments of \<^verbatim>\<open>harmonize\<close>; a variable list left at its default is \<open>None\<close>.\<close>

record args =
  raw_community :: "geoframe list"
  target_year :: cell
  weights_method :: string
  extensive_variables :: "string list option"
  intensive_variables :: "string list option"
  allocate_total :: bool
  raster_path :: "string option"
  codes :: "int list"
  force_crs_match :: bool
  index :: string
  time_col :: string

text \<open>The defaults of the signature (lines 12 to 24).\<close>

definition default_args :: "geoframe list \<Rightarrow> cell \<Rightarrow> args" where
  "default_args rc ty =
     \<lparr>raw_community = rc, target_year = ty, weights_method = ''area'',
      extensive_variables = None, intensive_variables = None, allocate_total = True,
      raster_path = None, codes = [21, 22, 23, 24], force_crs_match = True,
      index = ''geoid'', time_col = ''year''\<rparr>"

text \<open>\<^verbatim>\<open>len(v)\<close> of a list, or of \<open>None\<close>, which raises TypeError.\<close>

definition py_len :: "'a list option \<Rightarrow> error + nat" where
  "py_len v = (case v of None \<Rightarrow> Inl TypeError_len_NoneType | Some xs \<Rightarrow> Inr (length xs))"

definition usage_message :: string where
  "usage_message =
     ''You must pass a set of extensive and/or intensive variables to interpolate''"

text \<open>
  The usage error of line 114: the \<^verbatim>\<open>raise\<close> is given a str, which is no exception,
  so what the caller gets is Python's TypeError for that and not the message.
\<close>

definition usage_error :: error where
  "usage_error = TypeError_raise_str usage_message"

text \<open>
  Lines 113 to 116. The \<^verbatim>\<open>and\<close> takes the second length only when the first is zero.
\<close>

definition check_variables :: "args \<Rightarrow> error + unit" where
  "check_variables a =
     (case py_len (extensive_variables a) of
        Inl e \<Rightarrow> Inl e
      | Inr n \<Rightarrow>
          if n = 0
          then (case py_len (intensive_variables a) of
                  Inl e \<Rightarrow> Inl e
                | Inr m \<Rightarrow> if m = 0 then Inl usage_error else Inr ())
          else Inr ())"

text \<open>
  Modelled from the spec: \<^verbatim>\<open>_check_presence_of_crs\<close> of \<^verbatim>\<open>tobler.util.util\<close> is not in
  this module. By the spec the validator fails with a reference-system error if a
  collection lacks a defined coordinate reference system.
\<close>

definition check_presence_of_crs :: "geoframe \<Rightarrow> error + unit" where
  "check_presence_of_crs g = (case crs g of None \<Rightarrow> Inl CRSError_missing | Some c \<Rightarrow> Inr ())"

text \<open>Lines 118 and 119.\<close>

primrec check_all_crs :: "geoframe list \<Rightarrow> error + unit" where
  "check_all_crs [] = Inr ()"
| "check_all_crs (g # gs) =
     (case check_presence_of_crs g of Inl e \<Rightarrow> Inl e | Inr u \<Rightarrow> check_all_crs gs)"

text \<open>
  Lines 118 to 128: the checks, then the stored reference system. On an empty list the
  generator of \<^verbatim>\<open>all\<close> never reads \<^verbatim>\<open>raw_community[0]\<close>; line 128 does.
\<close>

definition input_crs :: "geoframe list \<Rightarrow> error + string option" where
  "input_crs rc =
     (case check_all_crs rc of
        Inl e \<Rightarrow> Inl e
      | Inr u \<Rightarrow>
          if list_all (\<lambda>i. crs i = crs (hd rc)) rc
          then (case rc of [] \<Rightarrow> Inl IndexError_list_index | g # gs \<Rightarrow> Inr (crs g))
          else Inl ValueError_crs_mismatch)"

text \<open>
  Lines 130 and 132: the distinct periods of the working table and the target frame.
\<close>

definition partition_periods :: "args \<Rightarrow> frame \<Rightarrow> error + cell list \<times> frame" where
  "partition_periods a dfs =
     (case get_series dfs (time_col a) of
        Inl e \<Rightarrow> Inl e
      | Inr tcol \<Rightarrow>
          (case reset_index (filter_rows dfs (map (\<lambda>v. cell_eq v (target_year a)) tcol)) of
             Inl e \<Rightarrow> Inl e
           | Inr t \<Rightarrow> Inr (unique tcol, t)))"

text \<open>
  The variables that live across the iterations of the loop: the target frame (an object
  that a callee can change), the accumulation dict, \<^verbatim>\<open>interpolation\<close> (unbound until
  assigned) and the calls made so far.
\<close>

record loop_state =
  target_df :: frame
  interpolated_dfs :: "(cell \<times> frame) list"
  interpolation :: "(ndarray \<times> ndarray) option"
  calls :: "call list"

text \<open>
  Lines 140 to 169. \<^verbatim>\<open>target_df.copy()\<close> hands the primitive a fresh table, so what the
  primitive does to it is dropped; line 164 hands over \<^verbatim>\<open>target_df\<close> itself, so the
  table is afterwards as the primitive left it. An error carries the calls made.
\<close>

definition dispatch ::
  "'t primitives \<Rightarrow> args \<Rightarrow> frame \<Rightarrow> cell \<Rightarrow> loop_state \<Rightarrow> call list \<times> error + loop_state" where
  "dispatch P a source_df i s =
     (case (if weights_method a = ''area''
            then (case area_interpolate_binning P source_df (target_df s)
                         (extensive_variables a) (intensive_variables a) (allocate_total a) of
                    Inl e \<Rightarrow> Inl (calls s @ [Call_area_interpolate_binning i], e)
                  | Inr r \<Rightarrow> Inr (s\<lparr>interpolation := Some (snd r),
                                     calls := calls s @ [Call_area_interpolate_binning i]\<rparr>))
            else Inr s) of
        Inl e \<Rightarrow> Inl e
      | Inr s1 \<Rightarrow>
          if weights_method a = ''land_type_area''
          then (case area_tables_raster P source_df (target_df s1) (raster_path a) (codes a)
                       (force_crs_match a) of
                  Inl e \<Rightarrow> Inl (calls s1 @ [Call_area_tables_raster i], e)
                | Inr t \<Rightarrow>
                    (case area_interpolate P source_df (target_df s1)
                            (extensive_variables a) (intensive_variables a) (allocate_total a)
                            (snd t) of
                       Inl e \<Rightarrow>
                         Inl (calls s1 @ [Call_area_tables_raster i, Call_area_interpolate i], e)
                     | Inr r \<Rightarrow>
                         Inr (s1\<lparr>target_df := fst r, interpolation := Some (snd r),
                                 calls := calls s1 @ [Call_area_tables_raster i,
                                                      Call_area_interpolate i]\<rparr>)))
          else Inr s1)"

text \<open>
  Lines 171 to 180. Both tables are built with \<^verbatim>\<open>columns=extensive_variables\<close>. Reading
  \<^verbatim>\<open>interpolation\<close> while it is unbound raises UnboundLocalError.
\<close>

definition build_profile :: "args \<Rightarrow> (ndarray \<times> ndarray) option \<Rightarrow> error + frame" where
  "build_profile a interp =
     (case extensive_variables a of
        None \<Rightarrow> Inl TypeError_len_NoneType
      | Some ev \<Rightarrow>
          (case (if length ev > 0
                 then (case interp of
                         None \<Rightarrow> Inl (UnboundLocalError ''interpolation'')
                       | Some r \<Rightarrow>
                           (case DataFrame (fst r) ev of Inl e \<Rightarrow> Inl e | Inr p \<Rightarrow> Inr [p]))
                 else Inr []) of
             Inl e \<Rightarrow> Inl e
           | Inr profiles \<Rightarrow>
               (case intensive_variables a of
                  None \<Rightarrow> Inl TypeError_len_NoneType
                | Some iv \<Rightarrow>
                    (case (if length iv > 0
                           then (case interp of
                                   None \<Rightarrow> Inl (UnboundLocalError ''interpolation'')
                                 | Some r \<Rightarrow>
                                     (case DataFrame (snd r) ev of
                                        Inl e \<Rightarrow> Inl e
                                      | Inr p \<Rightarrow> Inr (profiles @ [p])))
                           else Inr profiles) of
                       Inl e \<Rightarrow> Inl e
                     | Inr profiles' \<Rightarrow> concat_axis1 profiles'))))"

text \<open>Lines 181 to 183.\<close>

definition attach_target :: "args \<Rightarrow> frame \<Rightarrow> cell \<Rightarrow> frame \<Rightarrow> error + frame" where
  "attach_target a tdf i profile =
     (case get_series tdf ''geometry'' of
        Inl e \<Rightarrow> Inl e
      | Inr g \<Rightarrow>
          (case set_series profile ''geometry'' (idx tdf) g of
             Inl e \<Rightarrow> Inl e
           | Inr p1 \<Rightarrow>
               (case get_series tdf (index a) of
                  Inl e \<Rightarrow> Inl e
                | Inr ids \<Rightarrow>
                    (case set_series p1 (index a) (idx tdf) ids of
                       Inl e \<Rightarrow> Inl e
                     | Inr p2 \<Rightarrow> Inr (set_scalar p2 (time_col a) i)))))"

text \<open>Lines 138 to 185: one iteration of the loop, for the period \<open>i\<close>.\<close>

definition loop_body ::
  "'t primitives \<Rightarrow> args \<Rightarrow> frame \<Rightarrow> cell \<Rightarrow> loop_state \<Rightarrow> call list \<times> error + loop_state" where
  "loop_body P a dfs i s =
     (case get_series dfs (time_col a) of
        Inl e \<Rightarrow> Inl (calls s, e)
      | Inr tcol \<Rightarrow>
          (case dispatch P a (filter_rows dfs (map (\<lambda>v. cell_eq v i) tcol)) i s of
             Inl e \<Rightarrow> Inl e
           | Inr s1 \<Rightarrow>
               (case build_profile a (interpolation s1) of
                  Inl e \<Rightarrow> Inl (calls s1, e)
                | Inr profile \<Rightarrow>
                    (case attach_target a (target_df s1) i profile of
                       Inl e \<Rightarrow> Inl (calls s1, e)
                     | Inr profile' \<Rightarrow>
                         Inr (s1\<lparr>interpolated_dfs :=
                                   dict_set (interpolated_dfs s1) i profile'\<rparr>)))))"

text \<open>Line 137: the loop over the periods; the first error ends it.\<close>

primrec harmonize_loop ::
  "'t primitives \<Rightarrow> args \<Rightarrow> frame \<Rightarrow> cell list \<Rightarrow> loop_state \<Rightarrow> call list \<times> error + loop_state"
  where
  "harmonize_loop P a dfs [] s = Inr s"
| "harmonize_loop P a dfs (i # periods) s =
     (case loop_body P a dfs i s of
        Inl e \<Rightarrow> Inl e
      | Inr s' \<Rightarrow> harmonize_loop P a dfs periods s')"

text \<open>
  Lines 113 to 185: the function up to the end of the loop. The result is the calls made
  to the primitives and either the error raised or the stored reference system with the
  accumulation dict.
\<close>

definition harmonize_tables ::
  "'t primitives \<Rightarrow> args \<Rightarrow> call list \<times> (error + string option \<times> (cell \<times> frame) list)" where
  "harmonize_tables P a =
     (case check_variables a of
        Inl e \<Rightarrow> ([], Inl e)
      | Inr u \<Rightarrow>
          (case input_crs (raw_community a) of
             Inl e \<Rightarrow> ([], Inl e)
           | Inr c \<Rightarrow>
               (case pd_concat False (map data (raw_community a)) of
                  Inl e \<Rightarrow> ([], Inl e)
                | Inr dfs \<Rightarrow>
                    (case partition_periods a dfs of
                       Inl e \<Rightarrow> ([], Inl e)
                     | Inr pt \<Rightarrow>
                         (case harmonize_loop P a dfs (fst pt)
                                 \<lparr>target_df = snd pt,
                                  interpolated_dfs = dict_set [] (target_year a) (snd pt),
                                  interpolation = None, calls = []\<rparr> of
                            Inl ce \<Rightarrow> (fst ce, Inl (snd ce))
                          | Inr s \<Rightarrow> (calls s, Inr (c, interpolated_dfs s)))))))"

text \<open>
  Lines 187 to 191: the tables of the dict, in insertion order, are concatenated with
  \<^verbatim>\<open>sort=True\<close> and wrapped with \<^verbatim>\<open>gpd.GeoDataFrame\<close>, which is given no \<^verbatim>\<open>crs\<close>.
\<close>

definition harmonize :: "'t primitives \<Rightarrow> args \<Rightarrow> call list \<times> (error + geoframe)" where
  "harmonize P a =
     (case harmonize_tables P a of
        (cs, Inl e) \<Rightarrow> (cs, Inl e)
      | (cs, Inr cd) \<Rightarrow>
          (case pd_concat True (map snd (snd cd)) of
             Inl e \<Rightarrow> (cs, Inl e)
           | Inr t \<Rightarrow> (cs, Inr (GeoDataFrame t None))))"

section \<open>A small community and primitives to run the function on\<close>

text \<open>
  Two collections, of the years 2000 and 2010, with two polygons each and the extensive
  variable \<^verbatim>\<open>pop\<close>; the second has two more collections beside it that break the
  checks of the reference system.
\<close>

definition tracts_2000 :: geoframe where
  "tracts_2000 =
     \<lparr>crs = Some ''EPSG:4326'',
      data = \<lparr>idx_name = None, idx = [Str ''r0'', Str ''r1''],
              cols = [(''geoid'', [Str ''a'', Str ''b'']),
                      (''year'', [Str ''2000'', Str ''2000'']),
                      (''geometry'', [Geom 1, Geom 2]),
                      (''pop'', [Num 10, Num 20])]\<rparr>\<rparr>"

definition tracts_2010 :: geoframe where
  "tracts_2010 =
     \<lparr>crs = Some ''EPSG:4326'',
      data = \<lparr>idx_name = None, idx = [Str ''r0'', Str ''r1''],
              cols = [(''geoid'', [Str ''c'', Str ''d'']),
                      (''year'', [Str ''2010'', Str ''2010'']),
                      (''geometry'', [Geom 3, Geom 4]),
                      (''pop'', [Num 30, Num 40])]\<rparr>\<rparr>"

text \<open>A collection with the columns of the others and no rows.\<close>

definition tracts_empty :: geoframe where
  "tracts_empty =
     \<lparr>crs = Some ''EPSG:4326'',
      data = \<lparr>idx_name = None, idx = [],
              cols = [(''geoid'', []), (''year'', []), (''geometry'', []), (''pop'', [])]\<rparr>\<rparr>"

definition tracts_no_crs :: geoframe where
  "tracts_no_crs = tracts_2000\<lparr>crs := None\<rparr>"

definition tracts_other_crs :: geoframe where
  "tracts_other_crs = tracts_2000\<lparr>crs := Some ''EPSG:3857''\<rparr>"

text \<open>
  Primitives that keep the contract of the spec: two arrays with one row per row of the
  target, one column per variable, and the target left as it was. The values are the row
  counts of the source, which is enough to tell the periods apart.
\<close>

definition filled :: "nat \<Rightarrow> string list option \<Rightarrow> cell \<Rightarrow> ndarray" where
  "filled n names v =
     \<lparr>arr_nrows = n,
      arr_cols = replicate (case names of None \<Rightarrow> 0 | Some ns \<Rightarrow> length ns) (replicate n v)\<rparr>"

definition sample_interpolate ::
  "frame \<Rightarrow> frame \<Rightarrow> string list option \<Rightarrow> string list option \<Rightarrow> bool
     \<Rightarrow> error + frame \<times> ndarray \<times> ndarray" where
  "sample_interpolate source target ev iv alloc =
     Inr (target, filled (nrows target) ev (Num (int (nrows source))),
                  filled (nrows target) iv (Num (int (nrows source))))"

definition sample_primitives :: "unit primitives" where
  "sample_primitives =
     \<lparr>area_interpolate_binning = sample_interpolate,
      area_tables_raster = (\<lambda>source target path cs force. Inr (target, ())),
      area_interpolate = (\<lambda>source target ev iv alloc tables.
                            sample_interpolate source target ev iv alloc)\<rparr>"

text \<open>
  Primitives that return the same arrays but write into the table they are given as
  target: every geometry is replaced by the geometry 0.
\<close>

definition writing_interpolate ::
  "frame \<Rightarrow> frame \<Rightarrow> string list option \<Rightarrow> string list option \<Rightarrow> bool
     \<Rightarrow> error + frame \<times> ndarray \<times> ndarray" where
  "writing_interpolate source target ev iv alloc =
     Inr (set_scalar target ''geometry'' (Geom 0),
          filled (nrows target) ev (Num (int (nrows source))),
          filled (nrows target) iv (Num (int (nrows source))))"

definition writing_primitives :: "unit primitives" where
  "writing_primitives =
     \<lparr>area_interpolate_binning = writing_interpolate,
      area_tables_raster = (\<lambda>source target path cs force. Inr (target, ())),
      area_interpolate = (\<lambda>source target ev iv alloc tables.
                            writing_interpolate source target ev iv alloc)\<rparr>"

definition sample_args :: args where
  "sample_args =
     (default_args [tracts_2000, tracts_2010] (Str ''2010''))
       \<lparr>extensive_variables := Some [''pop''], intensive_variables := Some []\<rparr>"

text \<open>
  What the function computes on the sample: the working table of line 129, the target
  frame of line 132 and the returned table.
\<close>

definition sample_dfs :: frame where
  "sample_dfs =
     \<lparr>idx_name = None, idx = [Str ''r0'', Str ''r1'', Str ''r0'', Str ''r1''],
      cols = [(''geoid'', [Str ''a'', Str ''b'', Str ''c'', Str ''d'']),
              (''year'', [Str ''2000'', Str ''2000'', Str ''2010'', Str ''2010'']),
              (''geometry'', [Geom 1, Geom 2, Geom 3, Geom 4]),
              (''pop'', [Num 10, Num 20, Num 30, Num 40])]\<rparr>"

definition sample_target :: frame where
  "sample_target =
     \<lparr>idx_name = None, idx = [Num 0, Num 1],
      cols = [(''index'', [Str ''r0'', Str ''r1'']),
              (''geoid'', [Str ''c'', Str ''d'']),
              (''year'', [Str ''2010'', Str ''2010'']),
              (''geometry'', [Geom 3, Geom 4]),
              (''pop'', [Num 30, Num 40])]\<rparr>"

definition sample_out :: geoframe where
  "sample_out =
     \<lparr>crs = None,
      data = \<lparr>idx_name = None, idx = [Num 0, Num 1, Num 0, Num 1],
              cols = [(''geoid'', [Str ''c'', Str ''d'', Str ''c'', Str ''d'']),
                      (''geometry'', [Geom 3, Geom 4, Geom 3, Geom 4]),
                      (''pop'', [Num 2, Num 2, Num 2, Num 2]),
                      (''year'', [Str ''2010'', Str ''2010'',
                                  Str ''2000'', Str ''2000''])]\<rparr>\<rparr>"


section \<open>The contract of the primitives and the columns of a table\<close>

text \<open>
  By the spec a primitive returns two arrays whose rows are those of the target, in
  order. \<open>row_aligned\<close> says that much: each array has as many rows as the target the
  primitive was given, and \<^verbatim>\<open>area_interpolate\<close>, which is given the target frame itself,
  leaves it with as many rows as it had. \<open>target_kept\<close> says that \<^verbatim>\<open>area_interpolate\<close>
  leaves that table as it was.
\<close>

definition row_aligned :: "'t primitives \<Rightarrow> bool" where
  "row_aligned P =
     ((\<forall>source tgt ev iv al r.
         area_interpolate_binning P source tgt ev iv al = Inr r
         \<longrightarrow> arr_nrows (fst (snd r)) = nrows tgt \<and> arr_nrows (snd (snd r)) = nrows tgt)
      \<and> (\<forall>source tgt ev iv al tb r.
         area_interpolate P source tgt ev iv al tb = Inr r
         \<longrightarrow> arr_nrows (fst (snd r)) = nrows tgt \<and> arr_nrows (snd (snd r)) = nrows tgt
             \<and> nrows (fst r) = nrows tgt))"

definition target_kept :: "'t primitives \<Rightarrow> bool" where
  "target_kept P =
     (\<forall>source tgt ev iv al tb r.
        area_interpolate P source tgt ev iv al tb = Inr r \<longrightarrow> fst r = tgt)"

text \<open>The table has a column labelled \<open>name\<close>, and each column so labelled holds \<open>v\<close>.\<close>

definition has_col :: "frame \<Rightarrow> string \<Rightarrow> cell list \<Rightarrow> bool" where
  "has_col f name v =
     (name \<in> set (col_names f) \<and> list_all (\<lambda>c. fst c \<noteq> name \<or> snd c = v) (cols f))"


section \<open>Evaluation and the checks before the loop\<close>

lemmas eval_defs = harmonize_def harmonize_tables_def check_variables_def py_len_def
  input_crs_def check_presence_of_crs_def default_args_def tracts_2000_def tracts_2010_def
  tracts_no_crs_def tracts_other_crs_def tracts_empty_def sample_args_def pd_concat_def
  concat_names_def reindex_cols_def concat_idx_name_def col_names_def nrows_def
  partition_periods_def get_series_def filter_rows_def select_def cell_eq_def
  reset_index_def range_index_def loop_body_def dispatch_def build_profile_def
  attach_target_def DataFrame_def concat_axis1_def pad_def set_series_def align_def
  count_label_def is_int_label_def series_item_def
  set_col_def set_scalar_def GeoDataFrame_def sample_primitives_def sample_interpolate_def
  filled_def writing_primitives_def writing_interpolate_def

lemma check_all_crs_missing:
  "list_ex (\<lambda>g. crs g = None) rc \<Longrightarrow> check_all_crs rc = Inl CRSError_missing"
  by (induction rc) (auto simp: check_presence_of_crs_def split: option.splits)

lemma check_all_crs_ok:
  "list_all (\<lambda>g. crs g \<noteq> None) rc \<Longrightarrow> check_all_crs rc = Inr ()"
  by (induction rc) (auto simp: check_presence_of_crs_def split: option.splits)

text \<open>
  C3. When both variable lists are empty lists, the function fails with the usage error
  of line 114, whatever the collections and the primitives are: no check of a reference
  system has been made and no primitive has been called.
\<close>

theorem usage_error_before_checks:
  assumes "extensive_variables a = Some ev" and "intensive_variables a = Some iv"
    and "length ev = 0" and "length iv = 0"
  shows "harmonize P a = ([], Inl usage_error)"
  using assms by (simp add: harmonize_def harmonize_tables_def check_variables_def py_len_def)

text \<open>The same on a community whose second collection has no reference system.\<close>

theorem usage_error_before_checks_witness:
  "harmonize sample_primitives
     ((default_args [tracts_2000, tracts_no_crs] (Str ''2010''))
        \<lparr>extensive_variables := Some [], intensive_variables := Some []\<rparr>)
   = ([], Inl usage_error)"
  using usage_error_before_checks
    [of "(default_args [tracts_2000, tracts_no_crs] (Str ''2010''))
           \<lparr>extensive_variables := Some [], intensive_variables := Some []\<rparr>"
        "[]" "[]" sample_primitives]
  by simp

text \<open>
  C4 as stated fails where the variable lists are both empty: the first collection has
  no reference system, and the error is the usage error.
\<close>

theorem crs_error_counterexample:
  "crs tracts_no_crs = None
   \<and> harmonize sample_primitives
       ((default_args [tracts_no_crs, tracts_2010] (Str ''2010''))
          \<lparr>extensive_variables := Some [], intensive_variables := Some []\<rparr>)
     = ([], Inl usage_error)
   \<and> usage_error \<noteq> CRSError_missing"
  by (simp add: eval_defs usage_error_def)

text \<open>
  C4, amended. When the variable lists pass the check of line 113 (the extensive list is
  not empty, or the intensive list is a list that is not empty), a collection without a
  reference system makes the function fail with the missing-reference-system error; when
  all collections have one and some collection's differs from the first's, the function
  fails with the mismatch error. In both cases no primitive has been called.
\<close>

theorem crs_error_after_variable_check:
  assumes "extensive_variables a = Some ev"
    and "ev \<noteq> [] \<or> (\<exists>iv. intensive_variables a = Some iv \<and> iv \<noteq> [])"
  shows "(list_ex (\<lambda>g. crs g = None) (raw_community a)
            \<longrightarrow> harmonize P a = ([], Inl CRSError_missing))
       \<and> (list_all (\<lambda>g. crs g \<noteq> None) (raw_community a)
            \<and> list_ex (\<lambda>g. crs g \<noteq> crs (hd (raw_community a))) (raw_community a)
            \<longrightarrow> harmonize P a = ([], Inl ValueError_crs_mismatch))"
proof -
  have chk: "check_variables a = Inr ()"
    using assms by (auto simp: check_variables_def py_len_def)
  have missing: "harmonize P a = ([], Inl CRSError_missing)"
    if "list_ex (\<lambda>g. crs g = None) (raw_community a)"
    using chk check_all_crs_missing [OF that]
    by (simp add: harmonize_def harmonize_tables_def input_crs_def)
  have differs: "harmonize P a = ([], Inl ValueError_crs_mismatch)"
    if "list_all (\<lambda>g. crs g \<noteq> None) (raw_community a)"
      and "list_ex (\<lambda>g. crs g \<noteq> crs (hd (raw_community a))) (raw_community a)"
  proof -
    have "\<not> list_all (\<lambda>i. crs i = crs (hd (raw_community a))) (raw_community a)"
      using that(2) by (auto simp: list_all_iff list_ex_iff)
    then show ?thesis
      using chk check_all_crs_ok [OF that(1)]
      by (simp add: harmonize_def harmonize_tables_def input_crs_def)
  qed
  show ?thesis using missing differs by blast
qed

theorem crs_error_after_variable_check_witness:
  "harmonize sample_primitives (sample_args\<lparr>raw_community := [tracts_2000, tracts_no_crs]\<rparr>)
     = ([], Inl CRSError_missing)
   \<and> harmonize sample_primitives
       (sample_args\<lparr>raw_community := [tracts_2000, tracts_other_crs]\<rparr>)
     = ([], Inl ValueError_crs_mismatch)"
  using crs_error_after_variable_check
      [of "sample_args\<lparr>raw_community := [tracts_2000, tracts_no_crs]\<rparr>" "[''pop'']"
          sample_primitives]
    crs_error_after_variable_check
      [of "sample_args\<lparr>raw_community := [tracts_2000, tracts_other_crs]\<rparr>" "[''pop'']"
          sample_primitives]
  by (simp add: sample_args_def default_args_def tracts_2000_def tracts_no_crs_def
      tracts_other_crs_def)

text \<open>
  C5. A method that is neither \<^verbatim>\<open>area\<close> nor \<^verbatim>\<open>land_type_area\<close> meets no branch of
  lines 140 to 169 and no error of its own: on the sample community the first iteration
  reads \<^verbatim>\<open>interpolation\<close> unbound, and on a community without rows the loop does not
  run and the function returns an empty table.
\<close>

theorem unsupported_method_falls_through:
  "harmonize sample_primitives
     (sample_args\<lparr>weights_method := ''land_type_Poisson_regression''\<rparr>)
   = ([], Inl (UnboundLocalError ''interpolation''))
   \<and> harmonize sample_primitives
       ((default_args [tracts_empty] (Str ''2010''))
          \<lparr>weights_method := ''land_type_Gaussian_regression'',
           extensive_variables := Some [''pop''], intensive_variables := Some []\<rparr>)
     = ([], Inr \<lparr>crs = None,
                 data = \<lparr>idx_name = None, idx = [],
                         cols = [(''geoid'', []), (''geometry'', []), (''index'', []),
                                 (''pop'', []), (''year'', [])]\<rparr>\<rparr>)"
  by (simp add: eval_defs)

text \<open>
  C6. Line 128 stores the reference system of the first collection, and lines 187 to 189
  do not pass it on: on the sample community, whose collections carry EPSG:4326, the
  returned table carries none.
\<close>

theorem crs_not_reassigned:
  "crs (hd (raw_community sample_args)) = Some ''EPSG:4326''
   \<and> harmonize sample_primitives sample_args
     = ([Call_area_interpolate_binning (Str ''2000''),
         Call_area_interpolate_binning (Str ''2010'')],
        Inr \<lparr>crs = None,
             data = \<lparr>idx_name = None, idx = [Num 0, Num 1, Num 0, Num 1],
                     cols = [(''geoid'', [Str ''c'', Str ''d'', Str ''c'', Str ''d'']),
                             (''geometry'', [Geom 3, Geom 4, Geom 3, Geom 4]),
                             (''pop'', [Num 2, Num 2, Num 2, Num 2]),
                             (''year'', [Str ''2010'', Str ''2010'',
                                         Str ''2000'', Str ''2000''])]\<rparr>\<rparr>)"
  by (simp add: eval_defs)

text \<open>
  C9. With the method \<^verbatim>\<open>area\<close> a primitive that writes into its target changes nothing,
  since it is given a copy. With \<^verbatim>\<open>land_type_area\<close> line 164 gives
  \<^verbatim>\<open>area_interpolate\<close> the target frame itself: what the primitive wrote is read back
  at line 181 of the same iteration and of the later ones, and the returned table carries
  the geometry 0 in place of the geometries 3 and 4 of the target polygons.
\<close>

theorem target_passed_uncopied:
  "snd (harmonize writing_primitives sample_args)
     = snd (harmonize sample_primitives sample_args)
   \<and> snd (harmonize sample_primitives (sample_args\<lparr>weights_method := ''land_type_area''\<rparr>))
     = Inr \<lparr>crs = None,
            data = \<lparr>idx_name = None, idx = [Num 0, Num 1, Num 0, Num 1],
                    cols = [(''geoid'', [Str ''c'', Str ''d'', Str ''c'', Str ''d'']),
                            (''geometry'', [Geom 3, Geom 4, Geom 3, Geom 4]),
                            (''pop'', [Num 2, Num 2, Num 2, Num 2]),
                            (''year'', [Str ''2010'', Str ''2010'',
                                        Str ''2000'', Str ''2000''])]\<rparr>\<rparr>
   \<and> snd (harmonize writing_primitives (sample_args\<lparr>weights_method := ''land_type_area''\<rparr>))
     = Inr \<lparr>crs = None,
            data = \<lparr>idx_name = None, idx = [Num 0, Num 1, Num 0, Num 1],
                    cols = [(''geoid'', [Str ''c'', Str ''d'', Str ''c'', Str ''d'']),
                            (''geometry'', [Geom 0, Geom 0, Geom 0, Geom 0]),
                            (''pop'', [Num 2, Num 2, Num 2, Num 2]),
                            (''year'', [Str ''2010'', Str ''2010'',
                                        Str ''2000'', Str ''2000''])]\<rparr>\<rparr>"
  by (simp add: eval_defs)

text \<open>
  C10 as stated fails where the extensive list is given and the intensive list is left
  at \<open>None\<close>: the check of line 113 passes, and here the function fails with the mismatch
  of the reference systems, which is no TypeError.
\<close>

theorem none_default_counterexample:
  "intensive_variables
     ((default_args [tracts_2000, tracts_other_crs] (Str ''2010''))
        \<lparr>extensive_variables := Some [''pop'']\<rparr>) = None
   \<and> harmonize sample_primitives
       ((default_args [tracts_2000, tracts_other_crs] (Str ''2010''))
          \<lparr>extensive_variables := Some [''pop'']\<rparr>)
     = ([], Inl ValueError_crs_mismatch)
   \<and> \<not> is_TypeError ValueError_crs_mismatch"
  by (simp add: eval_defs is_TypeError_def)

text \<open>
  C10, amended. When the extensive list is \<open>None\<close>, or is an empty list while the
  intensive list is \<open>None\<close>, the function fails at line 113 with the TypeError of
  \<^verbatim>\<open>len(None)\<close>, before any other check and any call. When the extensive list is a list
  that is not empty, line 113 passes whatever the intensive list is. When both are empty
  lists, the function fails with the usage error, which is a TypeError too.
\<close>

theorem none_default_type_error:
  "(extensive_variables a = None
      \<or> extensive_variables a = Some [] \<and> intensive_variables a = None
      \<longrightarrow> harmonize P a = ([], Inl TypeError_len_NoneType))
   \<and> (extensive_variables a = Some (v # vs) \<longrightarrow> check_variables a = Inr ())
   \<and> (extensive_variables a = Some [] \<and> intensive_variables a = Some []
      \<longrightarrow> harmonize P a = ([], Inl usage_error))
   \<and> is_TypeError TypeError_len_NoneType \<and> is_TypeError usage_error"
  by (auto simp add: harmonize_def harmonize_tables_def check_variables_def py_len_def
      is_TypeError_def usage_error_def)

theorem none_default_type_error_witness:
  "harmonize sample_primitives (default_args [tracts_2000, tracts_no_crs] (Str ''2010''))
     = ([], Inl TypeError_len_NoneType)
   \<and> harmonize sample_primitives
       ((default_args [tracts_2000, tracts_no_crs] (Str ''2010''))
          \<lparr>extensive_variables := Some []\<rparr>)
     = ([], Inl TypeError_len_NoneType)
   \<and> check_variables sample_args = Inr ()
   \<and> harmonize sample_primitives
       ((default_args [tracts_other_crs, tracts_2010] (Str ''2010''))
          \<lparr>extensive_variables := Some [], intensive_variables := Some []\<rparr>)
     = ([], Inl usage_error)
   \<and> is_TypeError usage_error"
  using none_default_type_error
      [of "default_args [tracts_2000, tracts_no_crs] (Str ''2010'')" sample_primitives]
    none_default_type_error
      [of "(default_args [tracts_2000, tracts_no_crs] (Str ''2010''))
             \<lparr>extensive_variables := Some []\<rparr>" sample_primitives]
    none_default_type_error [of sample_args sample_primitives "''pop''" "[]"]
    none_default_type_error
      [of "(default_args [tracts_other_crs, tracts_2010] (Str ''2010''))
             \<lparr>extensive_variables := Some [], intensive_variables := Some []\<rparr>"
          sample_primitives]
  by (simp add: default_args_def sample_args_def)

section \<open>The loop\<close>

lemma cell_eq_iff: "cell_eq a b \<longleftrightarrow> a \<noteq> NaN \<and> a = b"
  by (simp add: cell_eq_def)

lemma set_unique: "set (unique xs) = set xs"
  by (induction xs) auto

lemma distinct_unique: "distinct (unique xs)"
  by (induction xs) (auto simp: set_unique)

lemma length_unique: "length (unique xs) = card (set xs)"
  using distinct_card [OF distinct_unique, of xs] by (simp add: set_unique)

lemma length_range_index: "length (range_index n) = n"
  by (simp add: range_index_def)

subsection \<open>The dict\<close>

lemma dict_set_keys:
  "map fst (dict_set d k v) =
     (if list_ex (\<lambda>k'. cell_eq k' k) (map fst d) then map fst d else map fst d @ [k])"
  by (induction d) auto

lemma dict_set_entries: "set (dict_set d k v) \<subseteq> insert (k, v) (set d)"
  by (induction d) (auto simp: cell_eq_iff)

lemma dict_set_values: "e \<in> set (dict_set d k v) \<Longrightarrow> e = (k, v) \<or> e \<in> set d"
  using dict_set_entries by fastforce

text \<open>
  The keys after a run of assignments with distinct keys \<open>ps\<close>, on a dict whose only key
  is \<open>t\<close>: \<open>t\<close> stays first, and the others follow in the order of \<open>ps\<close>.
\<close>

lemma foldl_keys:
  assumes "distinct ps"
  shows "foldl (\<lambda>ks p. if list_ex (\<lambda>k'. cell_eq k' p) ks then ks else ks @ [p]) ks ps
         = ks @ filter (\<lambda>p. \<not> list_ex (\<lambda>k'. cell_eq k' p) ks) ps"
  using assms
proof (induction ps arbitrary: ks)
  case Nil
  then show ?case by simp
next
  case (Cons p ps)
  show ?case
  proof (cases "list_ex (\<lambda>k'. cell_eq k' p) ks")
    case True
    then show ?thesis using Cons by simp
  next
    case False
    have "filter (\<lambda>q. \<not> list_ex (\<lambda>k'. cell_eq k' q) (ks @ [p])) ps
          = filter (\<lambda>q. \<not> list_ex (\<lambda>k'. cell_eq k' q) ks) ps"
      using Cons.prems by (intro filter_cong) (auto simp: cell_eq_iff)
    then show ?thesis using False Cons by simp
  qed
qed

lemma keys_from_target:
  assumes "distinct ps" and "t \<noteq> NaN"
  shows "foldl (\<lambda>ks p. if list_ex (\<lambda>k'. cell_eq k' p) ks then ks else ks @ [p]) [t] ps
         = t # filter (\<lambda>p. p \<noteq> t) ps"
proof -
  have "filter (\<lambda>p. \<not> list_ex (\<lambda>k'. cell_eq k' p) [t]) ps = filter (\<lambda>p. p \<noteq> t) ps"
    using assms(2) by (intro filter_cong) (auto simp: cell_eq_iff)
  then show ?thesis using foldl_keys [OF assms(1), of "[t]"] by simp
qed

lemma count_keys:
  assumes "distinct ps" and "t \<in> set ps"
  shows "length (t # filter (\<lambda>p. p \<noteq> t) ps) = length ps"
proof -
  have "filter (\<lambda>p. p \<noteq> t) ps = remove1 t ps"
    using assms(1) by (simp add: distinct_remove1_removeAll removeAll_filter_not_eq eq_commute)
  moreover have "length (remove1 t ps) = length ps - 1"
    using assms(2) by (simp add: length_remove1)
  moreover have "length ps > 0" using assms(2) by (cases ps) auto
  ultimately show ?thesis by simp
qed

subsection \<open>One iteration\<close>

lemma loop_body_Inr:
  assumes "loop_body P a dfs i s = Inr s'"
  obtains tcol s1 prof prof' where
    "get_series dfs (time_col a) = Inr tcol"
    "dispatch P a (filter_rows dfs (map (\<lambda>v. cell_eq v i) tcol)) i s = Inr s1"
    "build_profile a (interpolation s1) = Inr prof"
    "attach_target a (target_df s1) i prof = Inr prof'"
    "s' = s1\<lparr>interpolated_dfs := dict_set (interpolated_dfs s1) i prof'\<rparr>"
  using assms by (auto simp: loop_body_def split: sum.splits)

lemma dispatch_cases:
  assumes "dispatch P a source i s = Inr s1"
  shows "interpolated_dfs s1 = interpolated_dfs s \<and>
    ((weights_method a = ''area'' \<and> target_df s1 = target_df s \<and>
       (\<exists>r. area_interpolate_binning P source (target_df s) (extensive_variables a)
               (intensive_variables a) (allocate_total a) = Inr r
            \<and> interpolation s1 = Some (snd r)))
     \<or> (weights_method a = ''land_type_area'' \<and>
       (\<exists>tb r. area_interpolate P source (target_df s) (extensive_variables a)
               (intensive_variables a) (allocate_total a) tb = Inr r
            \<and> target_df s1 = fst r \<and> interpolation s1 = Some (snd r)))
     \<or> (weights_method a \<noteq> ''area'' \<and> weights_method a \<noteq> ''land_type_area'' \<and> s1 = s))"
  using assms
  by (auto simp: dispatch_def split: sum.splits if_splits)

lemma build_profile_unbound: "build_profile a None \<noteq> Inr prof"
  by (auto simp: build_profile_def concat_axis1_def split: option.splits sum.splits if_splits)

lemma build_profile_idx:
  assumes "build_profile a (Some r) = Inr prof"
    and "arr_nrows (fst r) = n" and "arr_nrows (snd r) = n"
  shows "idx prof = range_index n"
  using assms
  by (auto simp: build_profile_def concat_axis1_def DataFrame_def nrows_def length_range_index
      Let_def split: option.splits sum.splits if_splits)

lemma set_col_idx: "idx (set_col f name v) = idx f"
  by (simp add: set_col_def)

lemma set_series_idx: "set_series f name sidx vals = Inr g \<Longrightarrow> idx g = idx f"
  by (auto simp: set_series_def set_col_idx split: sum.splits if_splits)

lemma attach_target_idx: "attach_target a tdf i prof = Inr p \<Longrightarrow> idx p = idx prof"
  by (auto simp: attach_target_def set_scalar_def set_col_idx split: sum.splits
      dest!: set_series_idx)

text \<open>
  What an iteration that ends well has got from the primitives, when they keep the
  contract: arrays with the rows of the target frame, which has kept its rows. The
  variable \<^verbatim>\<open>interpolation\<close> is bound only under one of the two methods.
\<close>

lemma loop_body_arrays:
  assumes ra: "row_aligned P"
    and b: "loop_body P a dfs i s = Inr s'"
    and ip: "interpolation s = None \<or> weights_method a = ''area''
             \<or> weights_method a = ''land_type_area''"
  obtains s1 r prof prof' where
    "interpolated_dfs s1 = interpolated_dfs s"
    "interpolation s1 = Some r"
    "weights_method a = ''area'' \<or> weights_method a = ''land_type_area''"
    "arr_nrows (fst r) = nrows (target_df s)" "arr_nrows (snd r) = nrows (target_df s)"
    "nrows (target_df s1) = nrows (target_df s)"
    "weights_method a = ''area'' \<or> target_kept P \<longrightarrow> target_df s1 = target_df s"
    "build_profile a (Some r) = Inr prof"
    "attach_target a (target_df s1) i prof = Inr prof'"
    "s' = s1\<lparr>interpolated_dfs := dict_set (interpolated_dfs s1) i prof'\<rparr>"
proof -
  from b obtain tcol s1 prof prof' where
    d: "dispatch P a (filter_rows dfs (map (\<lambda>v. cell_eq v i) tcol)) i s = Inr s1"
    and bp: "build_profile a (interpolation s1) = Inr prof"
    and at: "attach_target a (target_df s1) i prof = Inr prof'"
    and s': "s' = s1\<lparr>interpolated_dfs := dict_set (interpolated_dfs s1) i prof'\<rparr>"
    by (elim loop_body_Inr)
  from bp obtain r where r: "interpolation s1 = Some r"
    using build_profile_unbound by (cases "interpolation s1") auto
  have m: "weights_method a = ''area'' \<or> weights_method a = ''land_type_area''"
    using dispatch_cases [OF d] r ip by auto
  have rows: "arr_nrows (fst r) = nrows (target_df s) \<and> arr_nrows (snd r) = nrows (target_df s)
      \<and> nrows (target_df s1) = nrows (target_df s)
      \<and> (weights_method a = ''area'' \<or> target_kept P \<longrightarrow> target_df s1 = target_df s)"
  proof (cases "weights_method a = ''area''")
    case True
    with dispatch_cases [OF d] r obtain q where
      q: "area_interpolate_binning P (filter_rows dfs (map (\<lambda>v. cell_eq v i) tcol))
            (target_df s) (extensive_variables a) (intensive_variables a) (allocate_total a)
          = Inr q" and "r = snd q" and "target_df s1 = target_df s"
      by auto
    moreover from ra q have
      "arr_nrows (fst (snd q)) = nrows (target_df s)
       \<and> arr_nrows (snd (snd q)) = nrows (target_df s)"
      unfolding row_aligned_def by blast
    ultimately show ?thesis by simp
  next
    case False
    with m dispatch_cases [OF d] r obtain tb q where
      q: "area_interpolate P (filter_rows dfs (map (\<lambda>v. cell_eq v i) tcol))
            (target_df s) (extensive_variables a) (intensive_variables a) (allocate_total a) tb
          = Inr q" and "r = snd q" and "target_df s1 = fst q"
      by auto
    moreover from ra q have
      "arr_nrows (fst (snd q)) = nrows (target_df s)
       \<and> arr_nrows (snd (snd q)) = nrows (target_df s)
       \<and> nrows (fst q) = nrows (target_df s)"
      unfolding row_aligned_def by blast
    moreover from q have "target_kept P \<longrightarrow> fst q = target_df s"
      unfolding target_kept_def by blast
    ultimately show ?thesis using False by simp
  qed
  have "interpolated_dfs s1 = interpolated_dfs s"
    using dispatch_cases [OF d] by simp
  then show ?thesis
    using that [of s1 r prof prof'] r m rows bp at s' by simp
qed

subsection \<open>All iterations\<close>

lemma harmonize_loop_Cons:
  assumes "harmonize_loop P a dfs (i # ps) s = Inr s'"
  obtains s1 where "loop_body P a dfs i s = Inr s1" "harmonize_loop P a dfs ps s1 = Inr s'"
  using assms by (auto split: sum.splits)

lemma loop_keys:
  assumes "harmonize_loop P a dfs ps s = Inr s'"
  shows "map fst (interpolated_dfs s')
         = foldl (\<lambda>ks p. if list_ex (\<lambda>k'. cell_eq k' p) ks then ks else ks @ [p])
             (map fst (interpolated_dfs s)) ps"
  using assms
proof (induction ps arbitrary: s)
  case Nil
  then show ?case by simp
next
  case (Cons i ps)
  from Cons.prems obtain s1 where b: "loop_body P a dfs i s = Inr s1"
    and l: "harmonize_loop P a dfs ps s1 = Inr s'"
    by (elim harmonize_loop_Cons)
  from b have "map fst (interpolated_dfs s1)
      = (if list_ex (\<lambda>k'. cell_eq k' i) (map fst (interpolated_dfs s))
         then map fst (interpolated_dfs s) else map fst (interpolated_dfs s) @ [i])"
  proof (elim loop_body_Inr)
    fix tcol s0 prof prof'
    assume d: "dispatch P a (filter_rows dfs (map (\<lambda>v. cell_eq v i) tcol)) i s = Inr s0"
      and e: "s1 = s0\<lparr>interpolated_dfs := dict_set (interpolated_dfs s0) i prof'\<rparr>"
    have "interpolated_dfs s0 = interpolated_dfs s"
      using dispatch_cases [OF d] by simp
    then show ?thesis using e by (simp add: dict_set_keys)
  qed
  with Cons.IH [OF l] show ?case by simp
qed

text \<open>
  An invariant \<open>I\<close> of the state and a property \<open>Q\<close> of the table each iteration stores
  carry through the loop: the dict keeps its first key \<open>t\<close>, every table stored after it
  has \<open>Q\<close>, and the first table has \<open>Q\<close> once \<open>t\<close> has had its iteration.
\<close>

lemma loop_invariant:
  assumes step: "\<And>i s s'. loop_body P a dfs i s = Inr s' \<Longrightarrow> I s \<Longrightarrow>
                   I s' \<and> (\<exists>prof. Q i prof
                             \<and> interpolated_dfs s' = dict_set (interpolated_dfs s) i prof)"
    and ty: "t \<noteq> NaN"
    and l: "harmonize_loop P a dfs ps s = Inr s'"
    and i: "I s"
    and d: "interpolated_dfs s = (t, f0) # rest"
    and rest: "\<forall>e \<in> set rest. Q (fst e) (snd e)"
  shows "\<exists>f0' rest'. interpolated_dfs s' = (t, f0') # rest'
           \<and> (\<forall>e \<in> set rest'. Q (fst e) (snd e))
           \<and> (if t \<in> set ps then Q t f0' else f0' = f0)"
  using l i d rest
proof (induction ps arbitrary: s f0 rest)
  case Nil
  then show ?case by simp
next
  case (Cons i ps)
  from Cons.prems(1) obtain s1 where b: "loop_body P a dfs i s = Inr s1"
    and l1: "harmonize_loop P a dfs ps s1 = Inr s'"
    by (elim harmonize_loop_Cons)
  from step [OF b Cons.prems(2)]
  obtain prof where i1: "I s1" and q: "Q i prof"
    and d1: "interpolated_dfs s1 = dict_set (interpolated_dfs s) i prof"
    by blast
  show ?case
  proof (cases "cell_eq t i")
    case True
    then have ti: "i = t" by (simp add: cell_eq_iff)
    have d1': "interpolated_dfs s1 = (t, prof) # rest"
      using d1 Cons.prems(3) True by simp
    from Cons.IH [OF l1 i1 d1' Cons.prems(4)] q ti
    show ?thesis by (auto split: if_splits)
  next
    case False
    then have ti: "i \<noteq> t" using ty by (simp add: cell_eq_iff)
    have d1': "interpolated_dfs s1 = (t, f0) # dict_set rest i prof"
      using d1 Cons.prems(3) False by simp
    have "\<forall>e \<in> set (dict_set rest i prof). Q (fst e) (snd e)"
      using Cons.prems(4) q by (auto dest!: dict_set_values)
    from Cons.IH [OF l1 i1 d1' this] ti
    show ?thesis by (auto split: if_splits)
  qed
qed

text \<open>The run of the function, taken apart.\<close>

lemma harmonize_tables_Inr:
  assumes "harmonize_tables P a = (cs, Inr (c, d))"
    and "pd_concat False (map data (raw_community a)) = Inr dfs"
    and "partition_periods a dfs = Inr (periods, tdf)"
  obtains s where
    "harmonize_loop P a dfs periods
       \<lparr>target_df = tdf, interpolated_dfs = [(target_year a, tdf)],
        interpolation = None, calls = []\<rparr> = Inr s"
    "d = interpolated_dfs s"
  using assms by (auto simp: harmonize_tables_def split: sum.splits)

lemma harmonize_Inr:
  assumes "harmonize P a = (cs, Inr out)"
  obtains c d t where
    "harmonize_tables P a = (cs, Inr (c, d))"
    "pd_concat True (map snd d) = Inr t"
    "out = GeoDataFrame t None"
  using assms
  by (auto simp: harmonize_def split: sum.splits prod.splits)

lemma partition_periods_Inr:
  assumes "partition_periods a dfs = Inr pt"
  obtains tcol where "get_series dfs (time_col a) = Inr tcol"
    "fst pt = unique tcol"
    "reset_index (filter_rows dfs (map (\<lambda>v. cell_eq v (target_year a)) tcol)) = Inr (snd pt)"
  using assms by (auto simp: partition_periods_def split: sum.splits)

text \<open>
  When the target period is among the periods, the dict ends with one table for each
  distinct period, and each of them has the property \<open>Q\<close> of the tables the loop stores.
\<close>

lemma tables_of_periods:
  assumes step: "\<And>i s s'. loop_body P a dfs i s = Inr s' \<Longrightarrow> I s \<Longrightarrow>
                   I s' \<and> (\<exists>prof. Q i prof
                             \<and> interpolated_dfs s' = dict_set (interpolated_dfs s) i prof)"
    and ht: "harmonize_tables P a = (cs, Inr (c, d))"
    and dfs: "pd_concat False (map data (raw_community a)) = Inr dfs"
    and tcol: "get_series dfs (time_col a) = Inr tcol"
    and pt: "partition_periods a dfs = Inr (periods, tdf)"
    and oc: "list_ex (\<lambda>v. cell_eq v (target_year a)) tcol"
    and i0: "I \<lparr>target_df = tdf, interpolated_dfs = [(target_year a, tdf)],
               interpolation = None, calls = []\<rparr>"
  shows "distinct (map fst d) \<and> set (map fst d) = set tcol \<and> length d = card (set tcol)
       \<and> (\<forall>e \<in> set d. Q (fst e) (snd e))"
proof -
  from ht dfs pt obtain s where
    loop: "harmonize_loop P a dfs periods
       \<lparr>target_df = tdf, interpolated_dfs = [(target_year a, tdf)],
        interpolation = None, calls = []\<rparr> = Inr s"
    and d: "d = interpolated_dfs s"
    by (elim harmonize_tables_Inr)
  have periods: "periods = unique tcol"
    using tcol pt by (auto elim!: partition_periods_Inr)
  have occurs: "target_year a \<in> set periods" "target_year a \<noteq> NaN"
    using oc by (auto simp: periods set_unique list_ex_iff cell_eq_iff)
  have dp: "distinct periods" by (simp add: periods distinct_unique)
  have keys: "map fst d = target_year a # filter (\<lambda>p. p \<noteq> target_year a) periods"
    using loop_keys [OF loop] keys_from_target [OF dp occurs(2)] d by simp
  have k1: "distinct (map fst d)" using keys dp by simp
  have k2: "set (map fst d) = set tcol"
    using keys occurs(1) by (auto simp: periods set_unique)
  have "length (map fst d) = length periods"
    unfolding keys by (rule count_keys [OF dp occurs(1)])
  then have k3: "length d = card (set tcol)"
    by (simp add: periods length_unique)
  from loop_invariant [where I = I and Q = Q, OF step occurs(2) loop i0, of tdf "[]"]
  obtain f0 rest where "d = (target_year a, f0) # rest"
    and "\<forall>e \<in> set rest. Q (fst e) (snd e)"
    and "Q (target_year a) f0"
    using occurs(1) d by auto
  then have "\<forall>e \<in> set d. Q (fst e) (snd e)" by auto
  with k1 k2 k3 show ?thesis by blast
qed

lemma pd_concat_idx: "pd_concat srt fs = Inr t \<Longrightarrow> idx t = concat (map idx fs)"
  by (auto simp: pd_concat_def Let_def split: if_splits sum.splits)

lemma pd_concat_nrows:
  assumes "pd_concat srt fs = Inr t" and "\<forall>f \<in> set fs. nrows f = n"
  shows "nrows t = n * length fs"
proof -
  have "length (concat (map idx fs)) = n * length fs"
    using assms(2) by (induction fs) (auto simp: nrows_def)
  then show ?thesis using pd_concat_idx [OF assms(1)] by (simp add: nrows_def)
qed

lemma sample_row_aligned: "row_aligned sample_primitives"
  by (simp add: row_aligned_def sample_primitives_def sample_interpolate_def filled_def)

lemma sample_target_kept: "target_kept sample_primitives"
  by (simp add: target_kept_def sample_primitives_def sample_interpolate_def)

lemma sample_dfs_eval:
  "pd_concat False (map data (raw_community sample_args)) = Inr sample_dfs"
  by (simp add: eval_defs sample_dfs_def)

lemma sample_tcol_eval:
  "get_series sample_dfs (time_col sample_args)
   = Inr [Str ''2000'', Str ''2000'', Str ''2010'', Str ''2010'']"
  by (simp add: eval_defs sample_dfs_def)

lemma sample_partition_eval:
  "partition_periods sample_args sample_dfs = Inr ([Str ''2000'', Str ''2010''], sample_target)"
  by (simp add: eval_defs sample_dfs_def sample_target_def)


lemma sample_harmonize_eval:
  "harmonize sample_primitives sample_args
   = ([Call_area_interpolate_binning (Str ''2000''),
       Call_area_interpolate_binning (Str ''2010'')], Inr sample_out)"
  by (simp add: eval_defs sample_out_def)

lemma sample_occurs:
  "list_ex (\<lambda>v. cell_eq v (target_year sample_args))
     [Str ''2000'', Str ''2000'', Str ''2010'', Str ''2010'']"
  by (simp add: cell_eq_def sample_args_def default_args_def)

section \<open>The rows of the combined table\<close>

lemma loop_body_rows:
  assumes ra: "row_aligned P"
    and b: "loop_body P a dfs i s = Inr s'"
    and i: "nrows (target_df s) = n
            \<and> (interpolation s = None \<or> weights_method a = ''area''
               \<or> weights_method a = ''land_type_area'')"
  shows "(nrows (target_df s') = n
          \<and> (interpolation s' = None \<or> weights_method a = ''area''
             \<or> weights_method a = ''land_type_area''))
       \<and> (\<exists>prof. nrows prof = n
              \<and> interpolated_dfs s' = dict_set (interpolated_dfs s) i prof)"
proof -
  from i have ip: "interpolation s = None \<or> weights_method a = ''area''
      \<or> weights_method a = ''land_type_area''" by simp
  from ra b ip obtain s1 r prof prof' where
    d: "interpolated_dfs s1 = interpolated_dfs s"
    and r: "interpolation s1 = Some r"
    and m: "weights_method a = ''area'' \<or> weights_method a = ''land_type_area''"
    and rows: "arr_nrows (fst r) = nrows (target_df s)" "arr_nrows (snd r) = nrows (target_df s)"
      "nrows (target_df s1) = nrows (target_df s)"
    and bp: "build_profile a (Some r) = Inr prof"
    and at: "attach_target a (target_df s1) i prof = Inr prof'"
    and s': "s' = s1\<lparr>interpolated_dfs := dict_set (interpolated_dfs s1) i prof'\<rparr>"
    by (rule loop_body_arrays)
  have "idx prof = range_index n"
    using build_profile_idx [OF bp] rows i by simp
  then have "nrows prof' = n"
    using attach_target_idx [OF at] by (simp add: nrows_def length_range_index)
  then show ?thesis using s' d rows m i by auto
qed

text \<open>
  C1. When the primitives return arrays with the rows of the target they are given,
  and the target period is among the values of the period column of the working table,
  the table the function returns has as many rows as the target frame has, times the
  number of distinct values of that column.
\<close>

theorem harmonize_row_count:
  assumes "harmonize P a = (cs, Inr out)"
    and "row_aligned P"
    and "pd_concat False (map data (raw_community a)) = Inr dfs"
    and "get_series dfs (time_col a) = Inr tcol"
    and "partition_periods a dfs = Inr (periods, tdf)"
    and "list_ex (\<lambda>v. cell_eq v (target_year a)) tcol"
  shows "nrows (data out) = nrows tdf * card (set tcol)"
proof -
  from assms(1) obtain c d t where
    ht: "harmonize_tables P a = (cs, Inr (c, d))"
    and t: "pd_concat True (map snd d) = Inr t"
    and out: "out = GeoDataFrame t None"
    by (elim harmonize_Inr)
  have "distinct (map fst d) \<and> set (map fst d) = set tcol \<and> length d = card (set tcol)
       \<and> (\<forall>e \<in> set d. nrows (snd e) = nrows tdf)"
    by (rule tables_of_periods
        [where I = "\<lambda>s. nrows (target_df s) = nrows tdf
                       \<and> (interpolation s = None \<or> weights_method a = ''area''
                          \<or> weights_method a = ''land_type_area'')"
           and Q = "\<lambda>p prof. nrows prof = nrows tdf",
         OF loop_body_rows [OF assms(2)] ht assms(3,4,5,6)])
      simp_all
  then have "length d = card (set tcol)" and "\<forall>f \<in> set (map snd d). nrows f = nrows tdf"
    by auto
  with pd_concat_nrows [OF t, of "nrows tdf"] out show ?thesis
    by (simp add: GeoDataFrame_def)
qed

text \<open>On the sample: two target polygons and two periods give four rows.\<close>

theorem harmonize_row_count_witness:
  "harmonize sample_primitives sample_args
     = ([Call_area_interpolate_binning (Str ''2000''),
         Call_area_interpolate_binning (Str ''2010'')], Inr sample_out)
   \<and> row_aligned sample_primitives
   \<and> partition_periods sample_args sample_dfs
     = Inr ([Str ''2000'', Str ''2010''], sample_target)
   \<and> nrows sample_target = 2
   \<and> nrows (data sample_out) = 4"
  using harmonize_row_count [OF sample_harmonize_eval sample_row_aligned sample_dfs_eval
      sample_tcol_eval sample_partition_eval sample_occurs]
    sample_harmonize_eval sample_row_aligned sample_partition_eval
  by (simp add: nrows_def sample_target_def)

section \<open>The columns taken from the target frame\<close>

lemma col_names_set_col:
  "col_names (set_col f name v)
   = (if name \<in> set (col_names f) then col_names f else col_names f @ [name])"
proof -
  have "map fst (map (\<lambda>c. if fst c = name then (name, v) else c) xs) = map fst xs" for xs
    by (induction xs) auto
  then show ?thesis by (simp add: set_col_def col_names_def)
qed




lemma get_series_has_col:
  assumes "get_series f name = Inr v"
  shows "has_col f name v"
proof -
  from assms obtain c where c: "filter (\<lambda>c. fst c = name) (cols f) = [c]" and v: "snd c = v"
    by (auto simp: get_series_def split: list.splits)
  have "c \<in> set (filter (\<lambda>c. fst c = name) (cols f))" using c by simp
  then have "name \<in> set (col_names f)" by (auto simp: col_names_def)
  moreover have "snd x = v" if "x \<in> set (cols f)" "fst x = name" for x
  proof -
    have "x \<in> set (filter (\<lambda>c. fst c = name) (cols f))" using that by simp
    then show ?thesis using c v by simp
  qed
  ultimately show ?thesis by (auto simp: has_col_def list_all_iff)
qed

lemma map_fst_spread_cols: "map fst (spread_cols name items cs) = map fst cs"
  by (induction name items cs rule: spread_cols.induct) auto




lemma DataFrame_col_names: "DataFrame arr names = Inr f \<Longrightarrow> col_names f = names"
  by (auto simp: DataFrame_def col_names_def split: if_splits)

lemma concat_axis1_col_names:
  "concat_axis1 fs = Inr f \<Longrightarrow> col_names f = concat (map col_names fs)"
  by (auto simp: concat_axis1_def Let_def col_names_def [abs_def] comp_def map_concat
      split: if_splits)

lemma build_profile_tables:
  assumes "build_profile a interp = Inr prof"
  shows "\<exists>ev ps. extensive_variables a = Some ev \<and> concat_axis1 ps = Inr prof
           \<and> (\<forall>p \<in> set ps. \<exists>arr. DataFrame arr ev = Inr p)"
proof -
  from assms obtain ev where ev: "extensive_variables a = Some ev"
    by (auto simp: build_profile_def split: option.splits)
  from assms ev obtain iv where iv: "intensive_variables a = Some iv"
    by (auto simp: build_profile_def split: option.splits sum.splits if_splits)
  obtain ps1 where ps1: "(if length ev > 0
          then (case interp of
                  None \<Rightarrow> Inl (UnboundLocalError ''interpolation'')
                | Some r \<Rightarrow> (case DataFrame (fst r) ev of Inl e \<Rightarrow> Inl e | Inr p \<Rightarrow> Inr [p]))
          else Inr []) = Inr ps1"
    using assms ev by (auto simp: build_profile_def split: sum.splits)
  then have a1: "\<forall>p \<in> set ps1. \<exists>arr. DataFrame arr ev = Inr p"
    by (auto split: if_splits option.splits sum.splits)
  obtain ps where ps: "(if length iv > 0
          then (case interp of
                  None \<Rightarrow> Inl (UnboundLocalError ''interpolation'')
                | Some r \<Rightarrow> (case DataFrame (snd r) ev of
                              Inl e \<Rightarrow> Inl e
                            | Inr p \<Rightarrow> Inr (ps1 @ [p])))
          else Inr ps1) = Inr ps"
    and c: "concat_axis1 ps = Inr prof"
    using assms ev iv ps1 by (auto simp: build_profile_def split: sum.splits)
  from ps a1 have "\<forall>p \<in> set ps. \<exists>arr. DataFrame arr ev = Inr p"
    by (auto split: if_splits option.splits sum.splits)
  with ev c show ?thesis by blast
qed

lemma build_profile_col_names:
  assumes "build_profile a interp = Inr prof"
  shows "\<exists>ev. extensive_variables a = Some ev \<and> set (col_names prof) = set ev"
proof -
  from build_profile_tables [OF assms] obtain ev ps where
    ev: "extensive_variables a = Some ev" and ps: "concat_axis1 ps = Inr prof"
    and each: "\<forall>p \<in> set ps. \<exists>arr. DataFrame arr ev = Inr p"
    by blast
  from each have names: "\<forall>p \<in> set ps. col_names p = ev"
    by (auto dest: DataFrame_col_names)
  from ps have "ps \<noteq> []" by (auto simp: concat_axis1_def)
  with names have "set (concat (map col_names ps)) = set ev"
    by (cases ps) auto
  with concat_axis1_col_names [OF ps] ev show ?thesis by simp
qed






subsection \<open>A column through the final concatenation\<close>



lemma set_concat_names:
  assumes "fs \<noteq> []"
  shows "set (concat_names srt fs) = (\<Union>f \<in> set fs. set (col_names f))"
proof -
  have "set (col_names (hd fs)) = (\<Union>f \<in> set fs. set (col_names f))"
    if "list_all (\<lambda>f. col_names f = col_names (hd fs)) fs"
    using that assms by (cases fs) (auto simp: list_all_iff)
  then show ?thesis
    by (auto simp: concat_names_def Let_def set_unique)
qed

lemma pd_concat_Inr:
  assumes "pd_concat srt fs = Inr t"
  obtains blocks where "fs \<noteq> []"
    "sequence (map (reindex_cols (concat_names srt fs)) fs) = Inr blocks"
    "t = \<lparr>idx_name = concat_idx_name fs, idx = concat (map idx fs),
          cols = map (\<lambda>j. (concat_names srt fs ! j, concat (map (\<lambda>b. b ! j) blocks)))
                   [0..<length (concat_names srt fs)]\<rparr>"
  using assms by (auto simp: pd_concat_def Let_def split: if_splits sum.splits)

lemma pd_concat_col_names:
  assumes "pd_concat srt fs = Inr t"
  shows "col_names t = concat_names srt fs"
  using assms
  by (elim pd_concat_Inr) (simp add: col_names_def comp_def map_nth)





section \<open>The headers of the two tables of a period\<close>

text \<open>
  C7. When intensive variables are asked for, the table that wraps the second array of
  the primitive is built with the extensive names as its headers, whatever the intensive
  names are, and it stands to the right of the table built from the first array (which
  is built only when the extensive list is not empty): the headers of the table of the
  period are the extensive names twice.
\<close>

theorem intensive_table_headers:
  assumes "build_profile a interp = Inr prof"
    and "intensive_variables a = Some iv" and "iv \<noteq> []"
  shows "\<exists>ev r intensive_table extensive_tables.
           extensive_variables a = Some ev \<and> interp = Some r
         \<and> DataFrame (snd r) ev = Inr intensive_table
         \<and> col_names intensive_table = ev
         \<and> map snd (cols intensive_table) = arr_cols (snd r)
         \<and> (ev = [] \<and> extensive_tables = []
             \<or> (\<exists>p. DataFrame (fst r) ev = Inr p \<and> extensive_tables = [p]))
         \<and> concat_axis1 (extensive_tables @ [intensive_table]) = Inr prof
         \<and> col_names prof = ev @ ev"
proof -
  from assms obtain ev where ev: "extensive_variables a = Some ev"
    by (auto simp: build_profile_def split: option.splits)
  from assms ev obtain r where r: "interp = Some r"
    by (cases interp) (auto simp: build_profile_def split: sum.splits if_splits)
  from assms ev r obtain p2 where p2: "DataFrame (snd r) ev = Inr p2"
    by (auto simp: build_profile_def split: sum.splits if_splits)
  then have len2: "length (arr_cols (snd r)) = length ev"
    and c2: "cols p2 = zip ev (arr_cols (snd r))"
    by (auto simp: DataFrame_def split: if_splits)
  have n2: "col_names p2 = ev" "map snd (cols p2) = arr_cols (snd r)"
    using len2 c2 by (simp_all add: col_names_def)
  show ?thesis
  proof (cases "ev = []")
    case True
    then have "concat_axis1 ([] @ [p2]) = Inr prof"
      using assms ev r p2 by (simp add: build_profile_def)
    moreover from this have "col_names prof = ev @ ev"
      using True n2(1) by (auto simp: concat_axis1_def Let_def col_names_def comp_def)
    ultimately show ?thesis using ev r p2 n2 True by blast
  next
    case False
    with assms ev r obtain p1 where p1: "DataFrame (fst r) ev = Inr p1"
      by (auto simp: build_profile_def split: sum.splits if_splits)
    then have n1: "col_names p1 = ev"
      by (auto simp: DataFrame_def col_names_def split: if_splits)
    have "concat_axis1 ([p1] @ [p2]) = Inr prof"
      using assms ev r p1 p2 False by (simp add: build_profile_def)
    moreover from this have "col_names prof = ev @ ev"
      using n1 n2(1) by (auto simp: concat_axis1_def Let_def col_names_def comp_def)
    ultimately show ?thesis using ev r p1 p2 n2 by blast
  qed
qed

text \<open>
  With the extensive variable \<^verbatim>\<open>pop\<close> and the intensive variable \<^verbatim>\<open>density\<close>, both
  columns of the table are headed \<^verbatim>\<open>pop\<close>.
\<close>

theorem intensive_table_headers_witness:
  "build_profile (sample_args\<lparr>intensive_variables := Some [''density'']\<rparr>)
     (Some (filled 2 (Some [''pop'']) (Num 1), filled 2 (Some [''density'']) (Num 7)))
   = Inr \<lparr>idx_name = None, idx = [Num 0, Num 1],
          cols = [(''pop'', [Num 1, Num 1]), (''pop'', [Num 7, Num 7])]\<rparr>
   \<and> col_names \<lparr>idx_name = None, idx = [Num 0, Num 1],
                 cols = [(''pop'', [Num 1, Num 1]), (''pop'', [Num 7, Num 7])]\<rparr>
     = [''pop''] @ [''pop'']"
proof -
  have b: "build_profile (sample_args\<lparr>intensive_variables := Some [''density'']\<rparr>)
             (Some (filled 2 (Some [''pop'']) (Num 1), filled 2 (Some [''density'']) (Num 7)))
           = Inr \<lparr>idx_name = None, idx = [Num 0, Num 1],
                  cols = [(''pop'', [Num 1, Num 1]), (''pop'', [Num 7, Num 7])]\<rparr>"
    by (simp add: eval_defs numeral_2_eq_2)
  from intensive_table_headers [OF b, of "[''density'']"] b show ?thesis
    by (auto simp: sample_args_def default_args_def)
qed

section \<open>The old row labels\<close>

lemma set_series_col_names:
  assumes "set_series f name sidx vals = Inr g"
  shows "set (col_names g) = insert name (set (col_names f))"
proof (cases "1 < count_label f name \<and> count_label f name = length vals")
  case True
  then have "filter (\<lambda>c. fst c = name) (cols f) \<noteq> []"
    by (auto simp: count_label_def)
  then have "name \<in> set (col_names f)"
    by (auto simp: col_names_def filter_empty_conv)
  moreover from assms True have "col_names g = col_names f"
    by (auto simp: set_series_def col_names_def map_fst_spread_cols split: sum.splits)
  ultimately show ?thesis by auto
next
  case False
  with assms show ?thesis
    by (auto simp: set_series_def col_names_set_col split: sum.splits if_splits)
qed

lemma attach_target_col_names:
  assumes "attach_target a tdf i prof = Inr p"
  shows "set (col_names p) = set (col_names prof) \<union> {''geometry'', index a, time_col a}"
proof -
  from assms obtain g ids p1 p2 where
    "set_series prof ''geometry'' (idx tdf) g = Inr p1"
    "set_series p1 (index a) (idx tdf) ids = Inr p2"
    "p = set_scalar p2 (time_col a) i"
    by (auto simp: attach_target_def split: sum.splits)
  then show ?thesis
    by (auto simp: set_scalar_def col_names_set_col dest!: set_series_col_names)
qed

lemma loop_body_col_names:
  assumes "loop_body P a dfs i s = Inr s'" and "True"
  shows "True \<and> (\<exists>prof. (\<exists>ev. extensive_variables a = Some ev
                    \<and> set (col_names prof) = set ev \<union> {''geometry'', index a, time_col a})
              \<and> interpolated_dfs s' = dict_set (interpolated_dfs s) i prof)"
proof -
  from assms(1) obtain tcol s1 prof prof' where
    d: "dispatch P a (filter_rows dfs (map (\<lambda>v. cell_eq v i) tcol)) i s = Inr s1"
    and bp: "build_profile a (interpolation s1) = Inr prof"
    and at: "attach_target a (target_df s1) i prof = Inr prof'"
    and s': "s' = s1\<lparr>interpolated_dfs := dict_set (interpolated_dfs s1) i prof'\<rparr>"
    by (elim loop_body_Inr)
  have "interpolated_dfs s1 = interpolated_dfs s"
    using dispatch_cases [OF d] by simp
  with build_profile_col_names [OF bp] attach_target_col_names [OF at] s'
  show ?thesis by auto
qed

text \<open>
  C8 as stated fails on a community of the one collection of 2010: the target frame has
  the fresh labels 0 and 1, and the old labels \<^verbatim>\<open>r0\<close> and \<^verbatim>\<open>r1\<close> stand in its first
  column, headed \<^verbatim>\<open>index\<close>.
\<close>

theorem old_index_kept_counterexample:
  "pd_concat False (map data [tracts_2010]) = Inr (data tracts_2010)
   \<and> idx (data tracts_2010) = [Str ''r0'', Str ''r1'']
   \<and> partition_periods (default_args [tracts_2010] (Str ''2010'')) (data tracts_2010)
     = Inr ([Str ''2010''],
            \<lparr>idx_name = None, idx = [Num 0, Num 1],
             cols = [(''index'', [Str ''r0'', Str ''r1'']),
                     (''geoid'', [Str ''c'', Str ''d'']),
                     (''year'', [Str ''2010'', Str ''2010'']),
                     (''geometry'', [Geom 3, Geom 4]),
                     (''pop'', [Num 30, Num 40])]\<rparr>)"
  by (simp add: eval_defs)

text \<open>
  C8, amended. The target frame has a fresh index that counts from 0, and no index
  name. The old row labels of its rows are not dropped: they are the first column of the
  target frame, headed by the name of the old index, or by \<^verbatim>\<open>index\<close> when it has none
  (\<^verbatim>\<open>level_0\<close> when \<^verbatim>\<open>index\<close> is taken); the other columns are those of the working
  table. When the target period is among the periods, the columns of the returned table
  are the extensive names, the geometry, the identifier and the period, so that the
  column of old labels is in it only under one of these headers.
\<close>

theorem target_frame_keeps_old_index:
  assumes "partition_periods a dfs = Inr (periods, tdf)"
  shows "\<exists>tcol. get_series dfs (time_col a) = Inr tcol
       \<and> idx_name tdf = None \<and> idx tdf = range_index (nrows tdf)
       \<and> cols tdf =
           ((case idx_name dfs of
               Some n \<Rightarrow> n
             | None \<Rightarrow> if ''index'' \<in> set (col_names dfs) then ''level_0'' else ''index''),
            select (map (\<lambda>v. cell_eq v (target_year a)) tcol) (idx dfs))
           # map (\<lambda>c. (fst c, select (map (\<lambda>v. cell_eq v (target_year a)) tcol) (snd c)))
               (cols dfs)
       \<and> (pd_concat False (map data (raw_community a)) = Inr dfs
            \<and> list_ex (\<lambda>v. cell_eq v (target_year a)) tcol
            \<and> harmonize P a = (cs, Inr out) \<and> extensive_variables a = Some ev
          \<longrightarrow> set (col_names (data out)) = set ev \<union> {''geometry'', index a, time_col a})"
proof -
  from assms obtain tcol where tcol: "get_series dfs (time_col a) = Inr tcol"
    by (elim partition_periods_Inr)
  have frame: "idx_name tdf = None \<and> idx tdf = range_index (nrows tdf)
       \<and> cols tdf =
           ((case idx_name dfs of
               Some n \<Rightarrow> n
             | None \<Rightarrow> if ''index'' \<in> set (col_names dfs) then ''level_0'' else ''index''),
            select (map (\<lambda>v. cell_eq v (target_year a)) tcol) (idx dfs))
           # map (\<lambda>c. (fst c, select (map (\<lambda>v. cell_eq v (target_year a)) tcol) (snd c)))
               (cols dfs)"
    using assms tcol
    by (auto simp: partition_periods_def reset_index_def filter_rows_def Let_def nrows_def
        length_range_index col_names_def split: sum.splits if_splits)
  have names: "set (col_names (data out)) = set ev \<union> {''geometry'', index a, time_col a}"
    if dfs: "pd_concat False (map data (raw_community a)) = Inr dfs"
      and oc: "list_ex (\<lambda>v. cell_eq v (target_year a)) tcol"
      and h: "harmonize P a = (cs, Inr out)" and ev: "extensive_variables a = Some ev"
  proof -
    from h obtain c d t where
      ht: "harmonize_tables P a = (cs, Inr (c, d))"
      and t: "pd_concat True (map snd d) = Inr t"
      and out: "out = GeoDataFrame t None"
      by (elim harmonize_Inr)
    have "distinct (map fst d) \<and> set (map fst d) = set tcol \<and> length d = card (set tcol)
       \<and> (\<forall>e \<in> set d. \<exists>ev. extensive_variables a = Some ev
              \<and> set (col_names (snd e)) = set ev \<union> {''geometry'', index a, time_col a})"
      by (rule tables_of_periods
          [where I = "\<lambda>s. True"
             and Q = "\<lambda>p prof. \<exists>ev. extensive_variables a = Some ev
                      \<and> set (col_names prof) = set ev \<union> {''geometry'', index a, time_col a}",
           OF loop_body_col_names ht dfs tcol assms oc])
        simp_all
    then have all: "\<forall>f \<in> set (map snd d).
        set (col_names f) = set ev \<union> {''geometry'', index a, time_col a}"
      using ev by auto
    have ne: "map snd d \<noteq> []" using t by (auto elim: pd_concat_Inr)
    then obtain f where "f \<in> set (map snd d)" by (cases "map snd d") auto
    with all have "(\<Union>f \<in> set (map snd d). set (col_names f))
        = set ev \<union> {''geometry'', index a, time_col a}"
      by blast
    then show ?thesis
      using pd_concat_col_names [OF t] set_concat_names [OF ne, of True] out
      by (simp add: GeoDataFrame_def)
  qed
  show ?thesis using tcol frame names by blast
qed

text \<open>
  On the sample the old labels stand in the column \<^verbatim>\<open>index\<close> of the target frame, and
  the returned table has the columns \<^verbatim>\<open>pop\<close>, \<^verbatim>\<open>geometry\<close>, \<^verbatim>\<open>geoid\<close> and \<^verbatim>\<open>year\<close>.
\<close>

theorem target_frame_keeps_old_index_witness:
  "partition_periods sample_args sample_dfs
     = Inr ([Str ''2000'', Str ''2010''], sample_target)
   \<and> idx sample_target = range_index (nrows sample_target)
   \<and> hd (cols sample_target) = (''index'', [Str ''r0'', Str ''r1''])
   \<and> set (col_names (data sample_out)) = {''pop'', ''geometry'', ''geoid'', ''year''}"
proof -
  have ev: "extensive_variables sample_args = Some [''pop'']"
    by (simp add: sample_args_def default_args_def)
  have nm: "index sample_args = ''geoid''" "time_col sample_args = ''year''"
    "target_year sample_args = Str ''2010''"
    by (simp_all add: sample_args_def default_args_def)
  from target_frame_keeps_old_index [OF sample_partition_eval, of sample_primitives
      "[Call_area_interpolate_binning (Str ''2000''),
        Call_area_interpolate_binning (Str ''2010'')]" sample_out "[''pop'']"]
  obtain tcol where tcol: "get_series sample_dfs (time_col sample_args) = Inr tcol"
    and ix: "idx sample_target = range_index (nrows sample_target)"
    and cs: "cols sample_target =
           ((case idx_name sample_dfs of
               Some n \<Rightarrow> n
             | None \<Rightarrow> if ''index'' \<in> set (col_names sample_dfs) then ''level_0'' else ''index''),
            select (map (\<lambda>v. cell_eq v (target_year sample_args)) tcol) (idx sample_dfs))
           # map (\<lambda>c. (fst c, select (map (\<lambda>v. cell_eq v (target_year sample_args)) tcol)
                          (snd c)))
               (cols sample_dfs)"
    and names: "pd_concat False (map data (raw_community sample_args)) = Inr sample_dfs
            \<and> list_ex (\<lambda>v. cell_eq v (target_year sample_args)) tcol
            \<and> harmonize sample_primitives sample_args
                = ([Call_area_interpolate_binning (Str ''2000''),
                    Call_area_interpolate_binning (Str ''2010'')], Inr sample_out)
            \<and> extensive_variables sample_args = Some [''pop'']
          \<longrightarrow> set (col_names (data sample_out))
              = set [''pop''] \<union> {''geometry'', index sample_args, time_col sample_args}"
    by blast
  from tcol sample_tcol_eval
  have tc: "tcol = [Str ''2000'', Str ''2000'', Str ''2010'', Str ''2010'']" by simp
  have "hd (cols sample_target) = (''index'', [Str ''r0'', Str ''r1''])"
    unfolding cs tc by (simp add: sample_dfs_def col_names_def select_def cell_eq_def nm)
  moreover have "set (col_names (data sample_out)) = {''pop'', ''geometry'', ''geoid'', ''year''}"
    using names sample_dfs_eval sample_occurs sample_harmonize_eval ev
    unfolding tc nm by (auto simp: cell_eq_def)
  ultimately show ?thesis using sample_partition_eval ix by simp
qed

end
